theory Spec2Isabelle
  imports Complex_Main "HOL-Library.Sublist"
begin

section \<open>The content tree\<close>

text \<open>
  The editor's document is the JSON tree of the rich-text widget. The export module declares
  its shape as the interface \<^verbatim>\<open>TiptapNode\<close>: every field except \<^verbatim>\<open>type\<close> is optional, and
  a field that is absent reads as \<^verbatim>\<open>undefined\<close>. A value parsed from stored JSON may lack
  \<^verbatim>\<open>type\<close> as well, so the model makes it optional too. An absent field is \<open>None\<close>.

  Strings are \<open>char list\<close>; a \<open>char\<close> stands for one code unit of the source's strings.
  The attributes the code reads are \<^verbatim>\<open>level\<close>, \<^verbatim>\<open>textAlign\<close>, \<^verbatim>\<open>checked\<close>, \<^verbatim>\<open>src\<close>
  and the placeholder flag \<^verbatim>\<open>data-temp\<close> that the editor sets on an image whose upload is
  still in flight. A heading level is an integer (the widget only produces 1 to 6).
\<close>

datatype mark = Mark (mark_type: string)

record attrs =
  level :: "int option"
  textAlign :: "string option"
  checked :: "bool option"
  src :: "string option"
  data_temp :: "string option"

datatype node = Node
  (node_type: "string option")
  (node_content: "node list option")
  (node_text: "string option")
  (node_marks: "mark list option")
  (node_attrs: "attrs option")

section \<open>String helpers of the platform\<close>

text \<open>\<^verbatim>\<open>Array.prototype.join\<close> on strings.\<close>

fun join :: "string \<Rightarrow> string list \<Rightarrow> string" where
  "join sep [] = []"
| "join sep [x] = x"
| "join sep (x # y # ys) = x @ sep @ join sep (y # ys)"

text \<open>Decimal rendering of an integer, as a template literal renders an integral number.\<close>

fun digits :: "nat \<Rightarrow> string" where
  "digits n = (if n < 10 then [''0123456789'' ! n]
               else digits (n div 10) @ [''0123456789'' ! (n mod 10)])"

definition number_toString :: "int \<Rightarrow> string" where
  "number_toString i = (if i < 0 then ''-'' @ digits (nat (- i)) else digits (nat i))"

section \<open>The HTML renderer\<close>

text \<open>\<^verbatim>\<open>node.text || ''\<close>: an absent or empty text reads as the empty string.\<close>

definition text_or_empty :: "string option \<Rightarrow> string" where
  "text_or_empty t = (case t of None \<Rightarrow> [] | Some s \<Rightarrow> s)"

text \<open>The body of the \<^verbatim>\<open>forEach\<close> over the marks of a text node: one step wraps the text
  built so far.\<close>

definition applyMark :: "string \<Rightarrow> mark \<Rightarrow> string" where
  \<open>applyMark text m =
     (if mark_type m = ''bold'' then ''<strong>'' @ text @ ''</strong>''
      else if mark_type m = ''italic'' then ''<em>'' @ text @ ''</em>''
      else if mark_type m = ''underline'' then ''<u>'' @ text @ ''</u>''
      else if mark_type m = ''strike'' then ''<s>'' @ text @ ''</s>''
      else text)\<close>

text \<open>\<^verbatim>\<open>node.attrs?.level || 1\<close>, \<^verbatim>\<open>node.attrs?.checked ? 'checked' : ''\<close> and the truthiness
  test on \<^verbatim>\<open>node.attrs?.textAlign\<close>.\<close>

definition level_or_1 :: "attrs option \<Rightarrow> int" where
  "level_or_1 a = (case a of None \<Rightarrow> 1
                   | Some r \<Rightarrow> (case level r of None \<Rightarrow> 1 | Some l \<Rightarrow> if l = 0 then 1 else l))"

definition checked_word :: "attrs option \<Rightarrow> string" where
  "checked_word a = (case a of None \<Rightarrow> []
                     | Some r \<Rightarrow> if checked r = Some True then ''checked'' else [])"

definition truthy_textAlign :: "attrs option \<Rightarrow> string option" where
  "truthy_textAlign a = (case a of None \<Rightarrow> None
                         | Some r \<Rightarrow> (case textAlign r of None \<Rightarrow> None
                                     | Some s \<Rightarrow> if s = [] then None else Some s))"

text \<open>The renderer's argument is a node, so the first line of the source, which returns the
  empty string for a \<^verbatim>\<open>null\<close> or \<^verbatim>\<open>undefined\<close> argument, has no counterpart here.

  The \<^verbatim>\<open>switch\<close> on the node type either leaves with \<^verbatim>\<open>break\<close>, having chosen the tag
  and the first attributes, or returns at once; the \<^verbatim>\<open>doc\<close> case returns the rendering of
  the children. With no matching case the tag keeps its initial value \<^verbatim>\<open>div\<close>.\<close>

datatype switch_exit = Break string "string list" | Return string | Return_children

definition switch_type :: "string option \<Rightarrow> attrs option \<Rightarrow> switch_exit" where
  \<open>switch_type ty a =
     (if ty = Some ''paragraph'' then Break ''p'' []
      else if ty = Some ''heading'' then Break (''h'' @ number_toString (level_or_1 a)) []
      else if ty = Some ''bulletList'' then Break ''ul'' []
      else if ty = Some ''orderedList'' then Break ''ol'' []
      else if ty = Some ''listItem'' then Break ''li'' []
      else if ty = Some ''taskList'' then Break ''ul'' [''class="task-list"'']
      else if ty = Some ''taskItem'' then
        Break ''li'' [''class="task-item '' @ checked_word a @ ''"'']
      else if ty = Some ''horizontalRule'' then Return ''<hr />''
      else if ty = Some ''hardBreak'' then Return ''<br />''
      else if ty = Some ''doc'' then Return_children
      else Break ''div'' [])\<close>

definition newline_tags :: "string list" where
  "newline_tags = [''p'', ''h1'', ''h2'', ''h3'', ''h4'', ''h5'', ''h6'',
                   ''ul'', ''ol'', ''li'', ''hr'', ''div'']"

fun convertNodeToHtml :: "node \<Rightarrow> string" where
  \<open>convertNodeToHtml (Node ty content text marks a) =
     (if ty = Some ''text'' then
        (case marks of
           None \<Rightarrow> text_or_empty text
         | Some ms \<Rightarrow> foldl applyMark (text_or_empty text) ms)
      else
        (case switch_type ty a of
           Return s \<Rightarrow> s
         | Return_children \<Rightarrow>
             (case content of
                Some cs \<Rightarrow> concat (map convertNodeToHtml cs)
              | None \<Rightarrow> [])
         | Break tag attrs0 \<Rightarrow>
             (let attrs1 = (case truthy_textAlign a of
                              Some al \<Rightarrow> attrs0 @ [''style="text-align: '' @ al @ ''"'']
                            | None \<Rightarrow> attrs0);
                  html0 = (if ty = Some ''taskItem''
                           then ''<input type="checkbox" '' @ checked_word a @ '' disabled /> ''
                           else []);
                  html1 = html0 @ ''<'' @ tag
                            @ (if attrs1 \<noteq> [] then '' '' @ join '' '' attrs1 else []) @ ''>'';
                  html2 = (case content of
                             Some cs \<Rightarrow> foldl (\<lambda>h child. h @ convertNodeToHtml child) html1 cs
                           | None \<Rightarrow> html1);
                  html3 = html2 @ ''</'' @ tag @ ''>''
              in if tag \<in> set newline_tags then html3 @ ''\<newline>'' else html3)))\<close>

section \<open>Values of unknown type\<close>

text \<open>
  \<^verbatim>\<open>tiptapToHtml\<close>, \<^verbatim>\<open>updatePage\<close> and \<^verbatim>\<open>getPage\<close> handle a content of type \<^verbatim>\<open>any\<close>: the
  functions test it with \<^verbatim>\<open>typeof\<close>, for truthiness and with \<^verbatim>\<open>Array.isArray\<close>. The values
  told apart by these tests are the constructors below. Objects are content-tree nodes and
  arrays hold nodes.
\<close>

datatype js_value =
    JUndefined
  | JNull
  | JBoolean bool
  | JNumber int
  | JString string
  | JObject node
  | JArray "node list"

fun truthy :: "js_value \<Rightarrow> bool" where
  "truthy JUndefined = False"
| "truthy JNull = False"
| "truthy (JBoolean b) = b"
| "truthy (JNumber i) = (i \<noteq> 0)"
| "truthy (JString s) = (s \<noteq> [])"
| "truthy (JObject n) = True"
| "truthy (JArray ns) = True"

text \<open>Reading a property of a boolean, a number or a string gives \<^verbatim>\<open>undefined\<close> for every
  property name the renderer reads, as on an object with no fields.\<close>

definition no_fields :: node where
  "no_fields = Node None None None None None"

section \<open>The export entry point\<close>

text \<open>
  \<^verbatim>\<open>JSON.parse\<close> belongs to the platform: it is a parameter, \<open>None\<close> when it throws.
  The converter is a parameter of the general form as well, with \<open>Inl\<close> for a thrown
  exception, so that the outer \<^verbatim>\<open>try\<close>/\<^verbatim>\<open>catch\<close> is a branch of the model;
  \<^verbatim>\<open>tiptapToHtml\<close> itself runs \<^verbatim>\<open>convertNodeToHtml\<close>, which returns on every node.
\<close>

datatype exn = Thrown

fun map_throwing :: "('a \<Rightarrow> exn + 'b) \<Rightarrow> 'a list \<Rightarrow> exn + 'b list" where
  "map_throwing f [] = Inr []"
| "map_throwing f (x # xs) =
     (case f x of
        Inl e \<Rightarrow> Inl e
      | Inr y \<Rightarrow> (case map_throwing f xs of Inl e \<Rightarrow> Inl e | Inr ys \<Rightarrow> Inr (y # ys)))"

definition tiptapToHtml_try ::
  "(node \<Rightarrow> exn + string) \<Rightarrow> (string \<Rightarrow> js_value option) \<Rightarrow> js_value \<Rightarrow> exn + string" where
  \<open>tiptapToHtml_try convert JSON_parse content =
     (case (case content of JString s \<Rightarrow> JSON_parse s | _ \<Rightarrow> Some content) of
        None \<Rightarrow> Inr ''<p>Error: Invalid content format</p>''
      | Some parsedContent \<Rightarrow>
          if \<not> truthy parsedContent then Inr ''<p>No content to export</p>''
          else
            (case parsedContent of
               JObject n \<Rightarrow>
                 if node_type n = Some ''doc'' \<or> node_content n \<noteq> None then convert n
                 else convert n
             | JArray ns \<Rightarrow>
                 (case map_throwing convert ns of
                    Inl e \<Rightarrow> Inl e
                  | Inr hs \<Rightarrow> Inr (concat hs))
             | _ \<Rightarrow> convert no_fields))\<close>

definition tiptapToHtml_with ::
  "(node \<Rightarrow> exn + string) \<Rightarrow> (string \<Rightarrow> js_value option) \<Rightarrow> js_value \<Rightarrow> string" where
  \<open>tiptapToHtml_with convert JSON_parse content =
     (case tiptapToHtml_try convert JSON_parse content of
        Inr html \<Rightarrow> html
      | Inl e \<Rightarrow> ''<p>Error converting content to PDF. Please try again.</p>'')\<close>

definition tiptapToHtml :: "(string \<Rightarrow> js_value option) \<Rightarrow> js_value \<Rightarrow> string" where
  "tiptapToHtml JSON_parse content =
     tiptapToHtml_with (\<lambda>n. Inr (convertNodeToHtml n)) JSON_parse content"

section \<open>Saving and loading the content\<close>

text \<open>
  \<^verbatim>\<open>updatePage\<close> stringifies a content that is an object before it is written, and
  \<^verbatim>\<open>getPage\<close> parses a stored content that is a string, keeps the string when parsing
  fails, and replaces a falsy content by the empty document. \<^verbatim>\<open>JSON.stringify\<close> and
  \<^verbatim>\<open>JSON.parse\<close> are parameters of the two definitions; their model follows in the next
  section. The document store returns the field as it was written.
\<close>

definition empty_doc :: node where
  "empty_doc = Node (Some ''doc'') (Some []) None None None"


definition getPage_content :: "(string \<Rightarrow> js_value option) \<Rightarrow> js_value \<Rightarrow> js_value" where
  "getPage_content JSON_parse data_content =
     (let content = (case data_content of
                       JString s \<Rightarrow> (case JSON_parse s of Some v \<Rightarrow> v | None \<Rightarrow> data_content)
                     | _ \<Rightarrow> data_content)
      in if truthy content then content else JObject empty_doc)"

section \<open>The JSON text of a content\<close>

text \<open>
  \<^verbatim>\<open>JSON.stringify\<close> and \<^verbatim>\<open>JSON.parse\<close> belong to the platform. They are modelled here
  after the language standard, for the values a content tree is made of: objects, arrays,
  strings, integers, booleans and \<^verbatim>\<open>null\<close>.

  \<^verbatim>\<open>JSON.stringify\<close> writes no white space. It writes a string between double quotes,
  with a backslash before a double quote and a backslash, the short escapes for backspace,
  form feed, line feed, carriage return and tab, and \<^verbatim>\<open>\u00XX\<close> with lower-case digits for
  the other code units below 32. An integer is written in decimal digits (the standard
  changes to exponent notation from \<open>10\<^sup>2\<^sup>1\<close> on, far above a heading level).
\<close>

datatype json =
    JsNull
  | JsBool bool
  | JsNum int
  | JsStr string
  | JsArr "json list"
  | JsObj "(string \<times> json) list"





text \<open>
  \<^verbatim>\<open>JSON.parse\<close> accepts white space (space, tab, line feed, carriage return) around
  every token, the escapes above and \<^verbatim>\<open>\/\<close>, and \<^verbatim>\<open>\uXXXX\<close> with digits of either case.
  It rejects a control character inside a string, a number with a leading zero, a trailing
  comma and text after the value. In this model a number is an integer, so a fraction or
  an exponent is rejected, and a \<^verbatim>\<open>\uXXXX\<close> escape must denote a code unit below 256.

  The parser descends with a counter that every call decrements; \<open>parse_text\<close> starts it
  above the length of the text. \<open>None\<close> stands for the \<^verbatim>\<open>SyntaxError\<close>.
\<close>

definition hex_val :: "char \<Rightarrow> nat option" where
  "hex_val c =
     (let n = (of_char c :: nat) in
      if 48 \<le> n \<and> n \<le> 57 then Some (n - 48)
      else if 97 \<le> n \<and> n \<le> 102 then Some (n - 87)
      else if 65 \<le> n \<and> n \<le> 70 then Some (n - 55)
      else None)"

definition hex4 :: "char \<Rightarrow> char \<Rightarrow> char \<Rightarrow> char \<Rightarrow> char option" where
  "hex4 h1 h2 h3 h4 =
     (case (hex_val h1, hex_val h2, hex_val h3, hex_val h4) of
        (Some a, Some b, Some c, Some d) \<Rightarrow>
          (let n = ((a * 16 + b) * 16 + c) * 16 + d
           in if n < 256 then Some (char_of n) else None)
      | _ \<Rightarrow> None)"

definition unescape :: "char \<Rightarrow> char option" where
  "unescape e =
     (if e = CHR 0x22 then Some (CHR 0x22)
      else if e = CHR 0x5C then Some (CHR 0x5C)
      else if e = CHR ''/'' then Some (CHR ''/'')
      else if e = CHR ''b'' then Some (CHR 0x08)
      else if e = CHR ''f'' then Some (CHR 0x0C)
      else if e = CHR ''n'' then Some (CHR 0x0A)
      else if e = CHR ''r'' then Some (CHR 0x0D)
      else if e = CHR ''t'' then Some (CHR 0x09)
      else None)"

definition cons_char :: "char \<Rightarrow> (string \<times> string) option \<Rightarrow> (string \<times> string) option" where
  "cons_char c res = (case res of None \<Rightarrow> None | Some (s, rest) \<Rightarrow> Some (c # s, rest))"

fun parse_chars :: "string \<Rightarrow> (string \<times> string) option" where
  "parse_chars [] = None"
| "parse_chars (c # cs) =
     (if c = CHR 0x22 then Some ([], cs)
      else if c = CHR 0x5C then
        (case cs of
           [] \<Rightarrow> None
         | e # cs1 \<Rightarrow>
             if e = CHR ''u'' then
               (case cs1 of
                  h1 # h2 # h3 # h4 # cs2 \<Rightarrow>
                    (case hex4 h1 h2 h3 h4 of
                       None \<Rightarrow> None
                     | Some ch \<Rightarrow> cons_char ch (parse_chars cs2))
                | _ \<Rightarrow> None)
             else
               (case unescape e of
                  None \<Rightarrow> None
                | Some ch \<Rightarrow> cons_char ch (parse_chars cs1)))
      else if (of_char c :: nat) < 32 then None
      else cons_char c (parse_chars cs))"

definition is_digit :: "char \<Rightarrow> bool" where
  "is_digit c = (48 \<le> (of_char c :: nat) \<and> (of_char c :: nat) \<le> 57)"

definition digit_val :: "char \<Rightarrow> nat" where
  "digit_val c = of_char c - 48"

definition parse_nat :: "string \<Rightarrow> nat" where
  "parse_nat ds = foldl (\<lambda>n c. 10 * n + digit_val c) 0 ds"

definition parse_digits :: "string \<Rightarrow> (nat \<times> string) option" where
  "parse_digits s =
     (let ds = takeWhile is_digit s
      in if ds = [] then None
         else if length ds = 1 \<or> hd ds \<noteq> CHR ''0'' then Some (parse_nat ds, dropWhile is_digit s)
         else None)"

definition parse_number :: "string \<Rightarrow> (json \<times> string) option" where
  "parse_number s =
     (case s of
        [] \<Rightarrow> None
      | c # r \<Rightarrow>
          if c = CHR ''-'' then
            (case parse_digits r of None \<Rightarrow> None | Some (n, rest) \<Rightarrow> Some (JsNum (- int n), rest))
          else
            (case parse_digits s of None \<Rightarrow> None | Some (n, rest) \<Rightarrow> Some (JsNum (int n), rest)))"

definition is_ws :: "char \<Rightarrow> bool" where
  "is_ws c = (c = CHR '' '' \<or> c = CHR 0x09 \<or> c = CHR 0x0A \<or> c = CHR 0x0D)"

definition skip_ws :: "string \<Rightarrow> string" where
  "skip_ws s = dropWhile is_ws s"

fun parse_value :: "nat \<Rightarrow> string \<Rightarrow> (json \<times> string) option"
  and parse_elements :: "nat \<Rightarrow> string \<Rightarrow> (json list \<times> string) option"
  and parse_members :: "nat \<Rightarrow> string \<Rightarrow> ((string \<times> json) list \<times> string) option"
where
  "parse_value 0 s = None"
| "parse_value (Suc f) s =
     (case skip_ws s of
        [] \<Rightarrow> None
      | c # r \<Rightarrow>
          if c = CHR ''n'' then (if prefix ''ull'' r then Some (JsNull, drop 3 r) else None)
          else if c = CHR ''t'' then (if prefix ''rue'' r then Some (JsBool True, drop 3 r) else None)
          else if c = CHR ''f'' then (if prefix ''alse'' r then Some (JsBool False, drop 4 r) else None)
          else if c = CHR 0x22 then
            (case parse_chars r of None \<Rightarrow> None | Some (str, r1) \<Rightarrow> Some (JsStr str, r1))
          else if c = CHR ''['' then
            (case skip_ws r of
               [] \<Rightarrow> None
             | c1 # r1 \<Rightarrow>
                 if c1 = CHR '']'' then Some (JsArr [], r1)
                 else (case parse_elements f r of
                         None \<Rightarrow> None
                       | Some (vs, r2) \<Rightarrow> Some (JsArr vs, r2)))
          else if c = CHR ''{'' then
            (case skip_ws r of
               [] \<Rightarrow> None
             | c1 # r1 \<Rightarrow>
                 if c1 = CHR ''}'' then Some (JsObj [], r1)
                 else (case parse_members f r of
                         None \<Rightarrow> None
                       | Some (kvs, r2) \<Rightarrow> Some (JsObj kvs, r2)))
          else if c = CHR ''-'' \<or> is_digit c then parse_number (c # r)
          else None)"
| "parse_elements 0 s = None"
| "parse_elements (Suc f) s =
     (case parse_value f s of
        None \<Rightarrow> None
      | Some (v, r) \<Rightarrow>
          (case skip_ws r of
             [] \<Rightarrow> None
           | c # r1 \<Rightarrow>
               if c = CHR '','' then
                 (case parse_elements f r1 of
                    None \<Rightarrow> None
                  | Some (vs, r2) \<Rightarrow> Some (v # vs, r2))
               else if c = CHR '']'' then Some ([v], r1)
               else None))"
| "parse_members 0 s = None"
| "parse_members (Suc f) s =
     (case skip_ws s of
        [] \<Rightarrow> None
      | q # r \<Rightarrow>
          if q \<noteq> CHR 0x22 then None
          else
            (case parse_chars r of
               None \<Rightarrow> None
             | Some (k, r1) \<Rightarrow>
                 (case skip_ws r1 of
                    [] \<Rightarrow> None
                  | col # r2 \<Rightarrow>
                      if col \<noteq> CHR '':'' then None
                      else
                        (case parse_value f r2 of
                           None \<Rightarrow> None
                         | Some (v, r3) \<Rightarrow>
                             (case skip_ws r3 of
                                [] \<Rightarrow> None
                              | c # r4 \<Rightarrow>
                                  if c = CHR '','' then
                                    (case parse_members f r4 of
                                       None \<Rightarrow> None
                                     | Some (kvs, r5) \<Rightarrow> Some ((k, v) # kvs, r5))
                                  else if c = CHR ''}'' then Some ([(k, v)], r4)
                                  else None)))))"

definition parse_text :: "string \<Rightarrow> json option" where
  "parse_text s =
     (case parse_value (Suc (length s)) s of
        None \<Rightarrow> None
      | Some (v, r) \<Rightarrow> if skip_ws r = [] then Some v else None)"





fun get_member :: "(string \<times> json) list \<Rightarrow> string \<Rightarrow> json option" where
  "get_member [] k = None"
| "get_member ((k', v) # kvs) k =
     (case get_member kvs k of
        Some w \<Rightarrow> Some w
      | None \<Rightarrow> if k' = k then Some v else None)"

definition string_member :: "(string \<times> json) list \<Rightarrow> string \<Rightarrow> string option" where
  "string_member kvs k = (case get_member kvs k of Some (JsStr s) \<Rightarrow> Some s | _ \<Rightarrow> None)"

definition mark_of_json :: "json \<Rightarrow> mark" where
  "mark_of_json j =
     (case j of
        JsObj kvs \<Rightarrow> Mark (case string_member kvs ''type'' of Some s \<Rightarrow> s | None \<Rightarrow> [])
      | _ \<Rightarrow> Mark [])"

definition attrs_of_json :: "json \<Rightarrow> attrs option" where
  "attrs_of_json j =
     (case j of
        JsObj kvs \<Rightarrow>
          Some \<lparr>level = (case get_member kvs ''level'' of Some (JsNum i) \<Rightarrow> Some i | _ \<Rightarrow> None),
                textAlign = string_member kvs ''textAlign'',
                checked = (case get_member kvs ''checked'' of Some (JsBool b) \<Rightarrow> Some b | _ \<Rightarrow> None),
                src = string_member kvs ''src'',
                data_temp = string_member kvs ''data-temp''\<rparr>
      | _ \<Rightarrow> None)"

function node_of_json :: "json \<Rightarrow> node" where
  "node_of_json (JsObj kvs) =
     Node (string_member kvs ''type'')
          (case get_member kvs ''content'' of
             Some (JsArr vs) \<Rightarrow> Some (map node_of_json vs)
           | _ \<Rightarrow> None)
          (string_member kvs ''text'')
          (case get_member kvs ''marks'' of
             Some (JsArr ms) \<Rightarrow> Some (map mark_of_json ms)
           | _ \<Rightarrow> None)
          (case get_member kvs ''attrs'' of Some j \<Rightarrow> attrs_of_json j | None \<Rightarrow> None)"
| "node_of_json JsNull = no_fields"
| "node_of_json (JsBool b) = no_fields"
| "node_of_json (JsNum i) = no_fields"
| "node_of_json (JsStr s) = no_fields"
| "node_of_json (JsArr vs) = no_fields"
  by pat_completeness auto
termination
proof (relation "measure size")
  show "wf (measure size)" by simp
next
  fix kvs :: "(string \<times> json) list" and x2 :: json and vs :: "json list" and v :: json
  assume "get_member kvs ''content'' = Some x2" "x2 = JsArr vs" "v \<in> set vs"
  have "size w < Suc (size_list (size_prod (\<lambda>x. 0) size) l)"
    if "get_member l k = Some w" for l :: "(string \<times> json) list" and k w
    using that by (induction l) (auto split: option.splits if_splits)
  with \<open>get_member kvs ''content'' = Some x2\<close> \<open>x2 = JsArr vs\<close>
  have "size (JsArr vs) < Suc (size_list (size_prod (\<lambda>x. 0) size) kvs)"
    by blast
  moreover have "size v < size (JsArr vs)"
    using \<open>v \<in> set vs\<close> by (induction vs) auto
  ultimately show "(v, JsObj kvs) \<in> measure size"
    by simp
qed


definition value_of_json :: "json \<Rightarrow> js_value" where
  "value_of_json j =
     (case j of
        JsNull \<Rightarrow> JNull
      | JsBool b \<Rightarrow> JBoolean b
      | JsNum i \<Rightarrow> JNumber i
      | JsStr s \<Rightarrow> JString s
      | JsArr vs \<Rightarrow> JArray (map node_of_json vs)
      | JsObj kvs \<Rightarrow> JObject (node_of_json j))"


definition json_parse :: "string \<Rightarrow> js_value option" where
  "json_parse s = map_option value_of_json (parse_text s)"

section \<open>Preview text and read time\<close>

text \<open>\<^verbatim>\<open>String.prototype.split\<close> with a one-character separator: the pieces between the
  separators, one more than there are separators.\<close>

fun str_split :: "char \<Rightarrow> string \<Rightarrow> string list" where
  "str_split sep [] = [[]]"
| "str_split sep (c # cs) =
     (if c = sep then [] # str_split sep cs
      else (case str_split sep cs of
              [] \<Rightarrow> [[c]]
            | p # ps \<Rightarrow> (c # p) # ps))"

text \<open>The arrow function mapped over the nodes by \<^verbatim>\<open>extractText\<close>, and \<^verbatim>\<open>extractText\<close>
  itself, which joins the results with a space. An array is truthy even when it is empty.\<close>

fun extractText_node :: "node \<Rightarrow> string" where
  "extractText_node (Node ty content text marks a) =
     (if ty = Some ''text'' then text_or_empty text
      else (case content of
              Some cs \<Rightarrow> join '' '' (map extractText_node cs)
            | None \<Rightarrow> []))"

definition extractText :: "node list \<Rightarrow> string" where
  "extractText nodes = join '' '' (map extractText_node nodes)"

text \<open>The argument is \<open>None\<close> for a \<^verbatim>\<open>null\<close> or \<^verbatim>\<open>undefined\<close> content.\<close>

definition getPreviewText :: "node option \<Rightarrow> string" where
  "getPreviewText content =
     (case content of
        None \<Rightarrow> []
      | Some c \<Rightarrow>
          (case node_content c of
             None \<Rightarrow> []
           | Some cs \<Rightarrow>
               (let text = extractText cs
                in take 150 text @ (if length text > 150 then ''...'' else []))))"

text \<open>\<^verbatim>\<open>calculateReadTime\<close> counts the pieces of the preview text and formats the minutes.
  \<open>readTime_words\<close> and \<open>readTime_minutes\<close> are its local variables \<^verbatim>\<open>words\<close> and
  \<^verbatim>\<open>minutes\<close>.\<close>

definition readTime_words :: "node option \<Rightarrow> nat" where
  "readTime_words content = length (str_split CHR '' '' (getPreviewText content))"

definition readTime_minutes :: "node option \<Rightarrow> int" where
  "readTime_minutes content = \<lceil>real (readTime_words content) / 200\<rceil>"

definition calculateReadTime :: "node option \<Rightarrow> string" where
  "calculateReadTime content = number_toString (readTime_minutes content) @ '' min read''"

section \<open>Image references\<close>

text \<open>\<^verbatim>\<open>String.prototype.includes\<close>; \<^verbatim>\<open>startsWith\<close> is \<^const>\<open>prefix\<close>.\<close>

fun str_includes :: "string \<Rightarrow> string \<Rightarrow> bool" where
  "str_includes [] sub = (sub = [])"
| "str_includes (c # cs) sub = (prefix sub (c # cs) \<or> str_includes cs sub)"

text \<open>A \<^verbatim>\<open>Set\<close> of strings keeps its elements in the order of their first insertion.\<close>

definition set_add :: "string list \<Rightarrow> string \<Rightarrow> string list" where
  "set_add xs x = (if x \<in> set xs then xs else xs @ [x])"

definition Array_from_Set :: "string list \<Rightarrow> string list" where
  "Array_from_Set paths = foldl set_add [] paths"

text \<open>
  The regular expression \<^verbatim>\<open>/\/v0\/b\/[^/]+\/o\/([^?]+)/\<close> of \<^verbatim>\<open>extractImagePaths\<close>:
  \<open>match_v0_here\<close> matches it at the start of a string and returns the captured group,
  \<open>match_v0\<close> searches for the leftmost match. A greedy \<^verbatim>\<open>[^/]+\<close> followed by a slash
  takes the whole run up to the next slash.
\<close>

definition match_v0_here :: "string \<Rightarrow> string option" where
  "match_v0_here s =
     (if prefix ''/v0/b/'' s then
        (let r = drop 6 s;
             bucket = takeWhile (\<lambda>c. c \<noteq> CHR ''/'') r;
             r2 = dropWhile (\<lambda>c. c \<noteq> CHR ''/'') r
         in if bucket \<noteq> [] \<and> prefix ''/o/'' r2 then
              (let cap = takeWhile (\<lambda>c. c \<noteq> CHR ''?'') (drop 3 r2)
               in if cap \<noteq> [] then Some cap else None)
            else None)
      else None)"

fun match_v0 :: "string \<Rightarrow> string option" where
  "match_v0 [] = match_v0_here []"
| "match_v0 (c # cs) =
     (case match_v0_here (c # cs) of Some cap \<Rightarrow> Some cap | None \<Rightarrow> match_v0 cs)"

text \<open>
  The regular expression \<^verbatim>\<open>/\/o\/(.+?)(\?|$)/\<close> of \<^verbatim>\<open>extractStoragePathFromUrl\<close>. The
  lazy group takes at least one character and stops at the first position followed by a
  question mark or by the end of the input; the dot does not match a line terminator.
\<close>

definition line_terminator :: "char \<Rightarrow> bool" where
  "line_terminator c = (c = CHR 0x0A \<or> c = CHR 0x0D)"

fun lazy_group :: "string \<Rightarrow> string \<Rightarrow> string option" where
  "lazy_group acc [] = (if acc \<noteq> [] then Some acc else None)"
| "lazy_group acc (c # cs) =
     (if acc \<noteq> [] \<and> c = CHR ''?'' then Some acc
      else if line_terminator c then None
      else lazy_group (acc @ [c]) cs)"

definition match_o_here :: "string \<Rightarrow> string option" where
  "match_o_here s = (if prefix ''/o/'' s then lazy_group [] (drop 3 s) else None)"

fun match_o :: "string \<Rightarrow> string option" where
  "match_o [] = match_o_here []"
| "match_o (c # cs) =
     (case match_o_here (c # cs) of Some cap \<Rightarrow> Some cap | None \<Rightarrow> match_o cs)"

text \<open>
  The platform's URL parser and \<^verbatim>\<open>decodeURIComponent\<close> are parameters: \<open>URL_pathname\<close>
  gives the \<^verbatim>\<open>pathname\<close> of \<^verbatim>\<open>new URL(src)\<close>, and each is \<open>None\<close> when it throws.
\<close>

type_synonym url_parser = "string \<Rightarrow> string option"
type_synonym uri_decoder = "string \<Rightarrow> string option"

text \<open>The body of \<^verbatim>\<open>traverse\<close> for an image node whose \<^verbatim>\<open>src\<close> is a string: it pushes at
  most one path. An exception inside the \<^verbatim>\<open>try\<close> is caught and pushes nothing.\<close>

definition push_image_path :: "url_parser \<Rightarrow> uri_decoder \<Rightarrow> string \<Rightarrow> string list \<Rightarrow> string list" where
  "push_image_path URL_pathname decodeURIComponent s paths =
     (if str_includes s ''firebasestorage.googleapis.com'' then
        (case URL_pathname s of
           None \<Rightarrow> paths
         | Some pathname \<Rightarrow>
             (case match_v0 pathname of
                None \<Rightarrow> paths
              | Some cap \<Rightarrow>
                  (case decodeURIComponent cap of
                     None \<Rightarrow> paths
                   | Some path \<Rightarrow> paths @ [path])))
      else if prefix ''users/'' s \<and> str_includes s ''/images/'' then paths @ [s]
      else if prefix ''http'' s then paths @ [s]
      else paths)"

definition attrs_src :: "attrs option \<Rightarrow> string option" where
  "attrs_src a = (case a of None \<Rightarrow> None | Some r \<Rightarrow> src r)"

fun traverse :: "url_parser \<Rightarrow> uri_decoder \<Rightarrow> node \<Rightarrow> string list \<Rightarrow> string list" where
  "traverse URL_pathname decodeURIComponent (Node ty content text marks a) paths =
     (let paths1 =
            (if ty = Some ''image'' then
               (case attrs_src a of
                  Some s \<Rightarrow> push_image_path URL_pathname decodeURIComponent s paths
                | None \<Rightarrow> paths)
             else paths)
      in case content of
           Some cs \<Rightarrow> foldl (\<lambda>ps child. traverse URL_pathname decodeURIComponent child ps) paths1 cs
         | None \<Rightarrow> paths1)"

text \<open>The argument is \<open>None\<close> for a \<^verbatim>\<open>null\<close> or \<^verbatim>\<open>undefined\<close> content. The content of
  the root is a list of nodes or absent; the source's branch for a root whose content is a
  single object has no counterpart in this type.\<close>

definition extractImagePaths :: "url_parser \<Rightarrow> uri_decoder \<Rightarrow> node option \<Rightarrow> string list" where
  "extractImagePaths URL_pathname decodeURIComponent content =
     (case content of
        None \<Rightarrow> []
      | Some c \<Rightarrow>
          (case node_content c of
             None \<Rightarrow> []
           | Some cs \<Rightarrow>
               Array_from_Set
                 (foldl (\<lambda>ps child. traverse URL_pathname decodeURIComponent child ps) [] cs)))"

section \<open>The image sweep of the editor hook\<close>

definition firebase_url :: "string \<Rightarrow> bool" where
  "firebase_url u =
     (str_includes u ''firebasestorage.googleapis.com''
      \<or> (str_includes u ''firebase'' \<and> str_includes u ''token=''))"

definition extractStoragePathFromUrl :: "url_parser \<Rightarrow> uri_decoder \<Rightarrow> string \<Rightarrow> string option" where
  "extractStoragePathFromUrl URL_pathname decodeURIComponent url =
     (if firebase_url url then
        (case URL_pathname url of
           None \<Rightarrow> None
         | Some pathname \<Rightarrow>
             (case match_o pathname of
                None \<Rightarrow> None
              | Some cap \<Rightarrow> decodeURIComponent cap))
      else None)"

text \<open>The local function \<^verbatim>\<open>extractImages\<close> adds to the set \<^verbatim>\<open>currentImages\<close>.\<close>

fun extractImages :: "node \<Rightarrow> string list \<Rightarrow> string list" where
  "extractImages (Node ty content text marks a) currentImages =
     (let current1 =
            (if ty = Some ''image'' then
               (case attrs_src a of
                  Some s \<Rightarrow>
                    if s \<noteq> [] \<and> firebase_url s then set_add currentImages s else currentImages
                | None \<Rightarrow> currentImages)
             else currentImages)
      in case content of
           Some cs \<Rightarrow> foldl (\<lambda>cur child. extractImages child cur) current1 cs
         | None \<Rightarrow> current1)"

text \<open>
  The state the sweep reads and writes: the signed-in user, the reference
  \<^verbatim>\<open>previousImages\<close>, and the storage service, seen through the paths passed to
  \<^verbatim>\<open>deleteObject\<close> in order and the number of failures that were logged. Whether a delete
  succeeds is decided by the service: the parameter \<open>deleteObject_ok\<close>.
\<close>

record editor_state =
  user_uid :: "string option"
  previousImages :: "string list"
  deleteObject_calls :: "string list"
  logged_failures :: nat

definition deleteImage :: "(string \<Rightarrow> bool) \<Rightarrow> string \<Rightarrow> editor_state \<Rightarrow> editor_state" where
  "deleteImage deleteObject_ok imagePath st =
     (if imagePath = [] then st
      else if deleteObject_ok imagePath then
        st\<lparr>deleteObject_calls := deleteObject_calls st @ [imagePath]\<rparr>
      else
        st\<lparr>deleteObject_calls := deleteObject_calls st @ [imagePath],
           logged_failures := logged_failures st + 1\<rparr>)"

text \<open>The body of the loop over \<^verbatim>\<open>deletedImages\<close>.\<close>

definition cleanup_step ::
  "url_parser \<Rightarrow> uri_decoder \<Rightarrow> (string \<Rightarrow> bool) \<Rightarrow> editor_state \<Rightarrow> string \<Rightarrow> editor_state" where
  "cleanup_step URL_pathname decodeURIComponent deleteObject_ok st imageUrl =
     (if \<not> str_includes imageUrl ''blob:'' then
        (case extractStoragePathFromUrl URL_pathname decodeURIComponent imageUrl of
           None \<Rightarrow> st
         | Some storagePath \<Rightarrow>
             if storagePath \<noteq> [] then deleteImage deleteObject_ok storagePath st else st)
      else st)"

definition trackImagesAndCleanup ::
  "url_parser \<Rightarrow> uri_decoder \<Rightarrow> (string \<Rightarrow> bool) \<Rightarrow> node \<Rightarrow> editor_state \<Rightarrow> editor_state" where
  "trackImagesAndCleanup URL_pathname decodeURIComponent deleteObject_ok currentContent st =
     (if user_uid st = None \<or> user_uid st = Some [] then st
      else
        (let currentImages = extractImages currentContent [];
             deletedImages = filter (\<lambda>url. url \<notin> set currentImages) (previousImages st);
             st1 = foldl (cleanup_step URL_pathname decodeURIComponent deleteObject_ok)
                     st deletedImages;
             nonTempImages = filter (\<lambda>url. \<not> str_includes url ''blob:'') currentImages
         in st1\<lparr>previousImages := nonTempImages\<rparr>))"

section \<open>Notions used in the statements\<close>

text \<open>The rendered children of a node, the style attribute of its tag as it appears in the
  opening tag, and the node types the renderer has a case for.\<close>

definition children_html :: "node list option \<Rightarrow> string" where
  "children_html content =
     (case content of None \<Rightarrow> [] | Some cs \<Rightarrow> concat (map convertNodeToHtml cs))"

definition style_attr :: "attrs option \<Rightarrow> string" where
  \<open>style_attr a =
     (case truthy_textAlign a of
        None \<Rightarrow> []
      | Some al \<Rightarrow> '' style="text-align: '' @ al @ ''"'')\<close>

definition recognized_kinds :: "string list" where
  "recognized_kinds = [''text'', ''paragraph'', ''heading'', ''bulletList'', ''orderedList'',
     ''listItem'', ''taskList'', ''taskItem'', ''horizontalRule'', ''hardBreak'', ''doc'']"

text \<open>A node and everything below it, in document order.\<close>

fun subnodes :: "node \<Rightarrow> node list" where
  "subnodes (Node ty content text marks a) =
     Node ty content text marks a
       # (case content of None \<Rightarrow> [] | Some cs \<Rightarrow> concat (map subnodes cs))"

text \<open>Nodes for the examples.\<close>

definition text_node :: "string \<Rightarrow> mark list \<Rightarrow> node" where
  "text_node s ms = Node (Some ''text'') None (Some s) (Some ms) None"

definition element :: "string \<Rightarrow> node list \<Rightarrow> node" where
  "element kind cs = Node (Some kind) (Some cs) None None None"

definition image_node :: "string \<Rightarrow> string option \<Rightarrow> node" where
  "image_node s flag =
     Node (Some ''image'') None None None
       (Some \<lparr>level = None, textAlign = None, checked = None, src = Some s, data_temp = flag\<rparr>)"

definition task_item :: "bool \<Rightarrow> node list \<Rightarrow> node" where
  "task_item c cs =
     Node (Some ''taskItem'') (Some cs) None None
       (Some \<lparr>level = None, textAlign = None, checked = Some c, src = None, data_temp = None\<rparr>)"

text \<open>The paths that \<^verbatim>\<open>traverse\<close> pushes for one node by itself: none unless the node is
  an image whose \<^verbatim>\<open>src\<close> is a string.\<close>

definition image_paths_of :: "url_parser \<Rightarrow> uri_decoder \<Rightarrow> node \<Rightarrow> string list" where
  "image_paths_of URL_pathname decodeURIComponent n =
     (if node_type n = Some ''image'' then
        (case attrs_src (node_attrs n) of
           Some s \<Rightarrow> push_image_path URL_pathname decodeURIComponent s []
         | None \<Rightarrow> [])
      else [])"

text \<open>The storage path that the sweep asks to delete for a URL that has left the document:
  none for a URL that contains \<^verbatim>\<open>blob:\<close> or yields no path.\<close>

definition sweep_path :: "url_parser \<Rightarrow> uri_decoder \<Rightarrow> string \<Rightarrow> string option" where
  "sweep_path URL_pathname decodeURIComponent url =
     (if str_includes url ''blob:'' then None
      else (case extractStoragePathFromUrl URL_pathname decodeURIComponent url of
              None \<Rightarrow> None
            | Some p \<Rightarrow> if p = [] then None else Some p))"

text \<open>For the examples: the pathname of a download URL of the storage service, such a URL
  for an object name, a signed-in editor whose last saved document held the images A, B
  and C, a document with the images B, C and D, and a text of 201 words.\<close>

definition example_pathname :: url_parser where
  "example_pathname u =
     (if prefix ''https://firebasestorage.googleapis.com'' u
      then Some (takeWhile (\<lambda>c. c \<noteq> CHR ''?'') (drop 38 u)) else None)"

definition stored_image :: "string \<Rightarrow> string" where
  "stored_image name = ''https://firebasestorage.googleapis.com/v0/b/bk/o/'' @ name @ ''?alt=media''"

definition abc_state :: editor_state where
  "abc_state = \<lparr>user_uid = Some ''u1'',
                 previousImages = [stored_image ''A'', stored_image ''B'', stored_image ''C''],
                 deleteObject_calls = [], logged_failures = 0\<rparr>"

definition bcd_doc :: node where
  "bcd_doc = element ''doc'' [image_node (stored_image ''B'') None,
               image_node (stored_image ''C'') None, image_node (stored_image ''D'') None]"

definition long_text :: string where
  "long_text = join '' '' (replicate (Suc 200) ''a'')"



section \<open>Properties of the HTML renderer\<close>

lemma foldl_append_html:
  "foldl (\<lambda>h child. h @ f child) h0 cs = h0 @ concat (map f cs)"
  by (induction cs arbitrary: h0) simp_all

lemma open_tag_attrs:
  "(if xs \<noteq> [] then '' '' @ join '' '' xs else []) = concat (map (\<lambda>x. '' '' @ x) xs)"
  by (induction "'' ''" xs rule: join.induct) simp_all

text \<open>The path through the renderer after a \<^verbatim>\<open>break\<close>: the checkbox of a task item, the
  opening tag with its attributes, the children, the closing tag and the line break.\<close>

lemma convert_Break:
  assumes "ty \<noteq> Some ''text''" and "switch_type ty a = Break tag attrs0"
  shows \<open>convertNodeToHtml (Node ty content tx marks a) =
     (if ty = Some ''taskItem''
      then ''<input type="checkbox" '' @ checked_word a @ '' disabled /> '' else [])
     @ ''<'' @ tag @ concat (map (\<lambda>x. '' '' @ x) attrs0) @ style_attr a @ ''>''
     @ children_html content @ ''</'' @ tag @ ''>''
     @ (if tag \<in> set newline_tags then ''\<newline>'' else [])\<close>
  using assms
  by (cases "truthy_textAlign a")
     (simp_all add: Let_def foldl_append_html open_tag_attrs children_html_def style_attr_def
        split: option.splits)

lemma convert_text:
  "convertNodeToHtml (Node (Some ''text'') content tx (Some ms) a) =
     foldl applyMark (text_or_empty tx) ms"
  by simp

lemma convert_default:
  assumes "ty \<notin> Some ` set recognized_kinds"
  shows \<open>convertNodeToHtml (Node ty content tx marks a) =
     ''<div'' @ style_attr a @ ''>'' @ children_html content @ ''</div>\<newline>''\<close>
proof -
  from assms have "ty \<noteq> Some ''text''" and "switch_type ty a = Break ''div'' []"
    by (simp_all add: recognized_kinds_def switch_type_def)
  from convert_Break [OF this] assms show ?thesis
    by (simp add: recognized_kinds_def newline_tags_def)
qed

lemmas eval_defs =
  text_node_def element_def switch_type_def text_or_empty_def
  applyMark_def truthy_textAlign_def checked_word_def newline_tags_def level_or_1_def
  number_toString_def children_html_def style_attr_def

text \<open>
  C3, as the code has it. The marks of a text node are applied in the order they are
  listed, each one wrapping the text built so far: the first mark listed is the innermost
  tag and the last one the outermost, and a mark of another type adds nothing. The paragraph
  with the text "hello" and the marks bold, italic renders as
  \<^verbatim>\<open><p><em><strong>hello</strong></em></p>\<close> followed by a line break.
\<close>

theorem marks_wrap_inner_to_outer:
  \<open>convertNodeToHtml (element ''paragraph'' [text_node ''hello'' [Mark ''bold'', Mark ''italic'']])
     = ''<p><em><strong>hello</strong></em></p>\<newline>''
   \<and> convertNodeToHtml (Node (Some ''text'') content tx (Some []) a) = text_or_empty tx
   \<and> convertNodeToHtml (Node (Some ''text'') content tx (Some (ms @ [m])) a)
       = applyMark (convertNodeToHtml (Node (Some ''text'') content tx (Some ms) a)) m
   \<and> applyMark h (Mark ''bold'') = ''<strong>'' @ h @ ''</strong>''
   \<and> applyMark h (Mark ''italic'') = ''<em>'' @ h @ ''</em>''
   \<and> applyMark h (Mark ''underline'') = ''<u>'' @ h @ ''</u>''
   \<and> applyMark h (Mark ''strike'') = ''<s>'' @ h @ ''</s>''\<close>
  by (simp add: eval_defs)

text \<open>C3 as stated fails: the paragraph of the scenario does not render as
  \<^verbatim>\<open><p><strong><em>hello</em></strong></p>\<close>.\<close>

theorem paragraph_bold_italic_counterexample:
  \<open>convertNodeToHtml (element ''paragraph'' [text_node ''hello'' [Mark ''bold'', Mark ''italic'']])
     \<noteq> ''<p><strong><em>hello</em></strong></p>''\<close>
  by (simp add: eval_defs)

text \<open>
  C4. For a task item that is checked, the renderer puts the disabled, checked checkbox and
  a space in front of the opening \<^verbatim>\<open><li class="task-item checked">\<close>, not inside the list
  item; the children and the closing tag follow.
\<close>

theorem taskItem_checkbox_precedes_li:
  assumes "checked r = Some True"
  shows \<open>convertNodeToHtml (Node (Some ''taskItem'') content tx marks (Some r)) =
     ''<input type="checkbox" checked disabled /> <li class="task-item checked"''
     @ style_attr (Some r) @ ''>'' @ children_html content @ ''</li>\<newline>''\<close>
proof -
  have "switch_type (Some ''taskItem'') (Some r)
          = Break ''li'' [''class=\"task-item '' @ checked_word (Some r) @ ''\"'']"
    by (simp add: switch_type_def)
  from convert_Break [OF _ this] assms show ?thesis
    by (simp add: checked_word_def newline_tags_def)
qed

theorem taskItem_checkbox_precedes_li_witness:
  \<open>checked \<lparr>level = None, textAlign = None, checked = Some True, src = None, data_temp = None\<rparr>
     = Some True
   \<and> convertNodeToHtml (task_item True [text_node ''buy milk'' []]) =
     ''<input type="checkbox" checked disabled /> <li class="task-item checked">buy milk</li>\<newline>''\<close>
  using taskItem_checkbox_precedes_li
    [of "\<lparr>level = None, textAlign = None, checked = Some True, src = None, data_temp = None\<rparr>"
        "Some [text_node ''buy milk'' []]" None None]
  by (simp add: eval_defs task_item_def)

text \<open>
  C5. An image node has no case in the renderer: it is rendered as a \<^verbatim>\<open>div\<close> element,
  with the alignment style when there is one, and its \<^verbatim>\<open>src\<close> does not appear in the
  output.
\<close>

theorem image_renders_as_div:
  \<open>convertNodeToHtml (Node (Some ''image'') content tx marks a) =
     ''<div'' @ style_attr a @ ''>'' @ children_html content @ ''</div>\<newline>''
   \<and> convertNodeToHtml (image_node ''https://example.com/a.png'' None) = ''<div></div>\<newline>''\<close>
proof -
  have "Some ''image'' \<notin> Some ` set recognized_kinds"
    by (simp add: recognized_kinds_def)
  from convert_default [OF this] show ?thesis
    by (simp add: eval_defs image_node_def)
qed




section \<open>Properties of the export entry point\<close>

lemma map_throwing_Inr:
  "map_throwing (\<lambda>n. Inr (f n)) ns = Inr (map f ns)"
  by (induction ns) simp_all

text \<open>
  C10. \<^verbatim>\<open>tiptapToHtml\<close> returns a string on every input. A string that \<^verbatim>\<open>JSON.parse\<close>
  rejects gives the fallback for an invalid format, \<^verbatim>\<open>null\<close> and \<^verbatim>\<open>undefined\<close> give the
  fallback for no content, an exception thrown by the conversion is caught and gives the
  third fallback, and with \<^verbatim>\<open>convertNodeToHtml\<close> as the converter nothing is thrown.
\<close>

theorem tiptapToHtml_never_throws:
  \<open>(JSON_parse s = None \<longrightarrow>
       tiptapToHtml JSON_parse (JString s) = ''<p>Error: Invalid content format</p>'')
   \<and> tiptapToHtml JSON_parse JNull = ''<p>No content to export</p>''
   \<and> tiptapToHtml JSON_parse JUndefined = ''<p>No content to export</p>''
   \<and> (tiptapToHtml_try convert JSON_parse content = Inl e \<longrightarrow>
        tiptapToHtml_with convert JSON_parse content
          = ''<p>Error converting content to PDF. Please try again.</p>'')
   \<and> (\<exists>html. tiptapToHtml_try (\<lambda>n. Inr (convertNodeToHtml n)) JSON_parse content = Inr html
        \<and> tiptapToHtml JSON_parse content = html)\<close>
proof -
  have "\<exists>html. tiptapToHtml_try (\<lambda>n. Inr (convertNodeToHtml n)) JSON_parse content = Inr html"
    by (simp add: tiptapToHtml_try_def map_throwing_Inr split: js_value.splits option.splits)
  then show ?thesis
    by (auto simp: tiptapToHtml_def tiptapToHtml_with_def tiptapToHtml_try_def)
qed

theorem tiptapToHtml_never_throws_witness:
  \<open>(\<lambda>s. None) ''{oops'' = (None :: js_value option)
   \<and> tiptapToHtml (\<lambda>s. None) (JString ''{oops'') = ''<p>Error: Invalid content format</p>''
   \<and> tiptapToHtml_try (\<lambda>n. Inl Thrown) (\<lambda>s. None) (JObject no_fields) = Inl Thrown
   \<and> tiptapToHtml_with (\<lambda>n. Inl Thrown) (\<lambda>s. None) (JObject no_fields)
        = ''<p>Error converting content to PDF. Please try again.</p>''\<close>
  using tiptapToHtml_never_throws
    [of "\<lambda>s. None" "''{oops''" "\<lambda>n. Inl Thrown" "JObject no_fields" Thrown]
  by (simp add: tiptapToHtml_try_def no_fields_def)

section \<open>Properties of the read time\<close>

lemma str_split_length:
  "1 \<le> length (str_split sep s) \<and> length (str_split sep s) \<le> length s + 1"
  by (induction s) (auto split: list.splits)

lemma getPreviewText_length: "length (getPreviewText content) \<le> 153"
  by (simp add: getPreviewText_def Let_def split: option.splits)

lemma readTime_words_bounds: "1 \<le> readTime_words content \<and> readTime_words content \<le> 154"
proof -
  let ?t = "getPreviewText content"
  have "length (str_split CHR '' '' ?t) \<le> length ?t + 1"
    using str_split_length by blast
  also have "\<dots> \<le> 154"
    using getPreviewText_length [of content] by simp
  finally show ?thesis
    using str_split_length [of "CHR '' ''" ?t] by (simp add: readTime_words_def)
qed

lemma ceiling_small: "1 \<le> n \<Longrightarrow> n \<le> 200 \<Longrightarrow> \<lceil>real n / 200\<rceil> = 1"
  by (rule ceiling_unique) simp_all

lemma readTime_minutes_1: "readTime_minutes content = 1"
  using readTime_words_bounds [of content] by (simp add: readTime_minutes_def ceiling_small)

lemma words_of_repeated_a:
  "length (str_split CHR '' '' (join '' '' (replicate (Suc n) ''a''))) = Suc n"
  by (induction n) simp_all

text \<open>
  C8. \<^verbatim>\<open>calculateReadTime\<close> counts the words of the preview text, which is cut to 150
  characters, so the count is at most 154 and the result is "1 min read" for every content.
  A document whose text has 201 words gets 1 minute as well, where the ceiling of 201 / 200
  is 2.
\<close>

theorem calculateReadTime_constant:
  "calculateReadTime content = ''1 min read''
   \<and> length (str_split CHR '' '' (extractText [text_node long_text []])) = Suc 200
   \<and> \<lceil>real (Suc 200) / 200\<rceil> = (2::int)
   \<and> calculateReadTime (Some (element ''doc'' [text_node long_text []])) = ''1 min read''"
proof -
  have a: "calculateReadTime c = ''1 min read''" for c
    by (simp add: calculateReadTime_def readTime_minutes_1 number_toString_def)
  have "extractText [text_node long_text []] = join '' '' (replicate (Suc 200) ''a'')"
    unfolding extractText_def text_node_def long_text_def
    by (simp add: text_or_empty_def del: replicate.simps)
  then have b: "length (str_split CHR '' '' (extractText [text_node long_text []])) = Suc 200"
    by (simp only: words_of_repeated_a)
  have c: "\<lceil>real (Suc 200) / 200\<rceil> = (2::int)"
    by (rule ceiling_unique) simp_all
  from a [of content] a [of "Some (element ''doc'' [text_node long_text []])"] b c
  show ?thesis by blast
qed

section \<open>Properties of the image references\<close>

lemma image_paths_of_Node:
  "image_paths_of U D (Node ty content tx marks a) =
     (if ty = Some ''image'' then
        (case attrs_src a of Some s \<Rightarrow> push_image_path U D s [] | None \<Rightarrow> [])
      else [])"
  by (simp add: image_paths_of_def)

lemma push_image_path_append:
  "push_image_path U D s paths = paths @ push_image_path U D s []"
  by (simp add: push_image_path_def split: option.splits)

lemma push_image_path_length: "length (push_image_path U D s []) \<le> 1"
  by (simp add: push_image_path_def split: option.splits)

lemma foldl_traverse_children:
  assumes "\<And>c ps. c \<in> set cs \<Longrightarrow> f c ps = ps @ g c"
  shows "foldl (\<lambda>ps c. f c ps) paths cs = paths @ concat (map g cs)"
  using assms by (induction cs arbitrary: paths) simp_all

lemma concat_map_concat:
  "concat (map f (concat (map g cs))) = concat (map (\<lambda>c. concat (map f (g c))) cs)"
  by (induction cs) simp_all

lemma traverse_subnodes:
  "traverse U D n paths = paths @ concat (map (image_paths_of U D) (subnodes n))"
proof (induction U D n paths rule: traverse.induct)
  case (1 U D ty content tx marks a paths)
  show ?case
  proof (cases content)
    case None
    then show ?thesis
      by (simp add: image_paths_of_Node push_image_path_append [of U D _ paths]
            split: option.splits)
  next
    case (Some cs)
    have ih: "traverse U D c ps = ps @ concat (map (image_paths_of U D) (subnodes c))"
      if "c \<in> set cs" for c ps
      using "1.IH" [OF refl Some that] .
    have kids: "foldl (\<lambda>ps c. traverse U D c ps) p1 cs
                  = p1 @ concat (map (\<lambda>c. concat (map (image_paths_of U D) (subnodes c))) cs)" for p1
      by (rule foldl_traverse_children) (rule ih)
    show ?thesis
      using Some
      by (simp add: kids concat_map_concat image_paths_of_Node
            push_image_path_append [of U D _ paths] split: option.splits)
  qed
qed

lemma set_foldl_set_add: "set (foldl set_add acc xs) = set acc \<union> set xs"
  by (induction xs arbitrary: acc) (auto simp: set_add_def)

lemma distinct_foldl_set_add: "distinct acc \<Longrightarrow> distinct (foldl set_add acc xs)"
  by (induction xs arbitrary: acc) (auto simp: set_add_def)

lemma distinct_Array_from_Set: "distinct (Array_from_Set xs)"
  by (simp add: Array_from_Set_def distinct_foldl_set_add)

lemma set_Array_from_Set: "set (Array_from_Set xs) = set xs"
  by (simp add: Array_from_Set_def set_foldl_set_add)

lemma extractImagePaths_children:
  "extractImagePaths U D (Some (Node ty (Some cs) tx marks a)) =
     Array_from_Set (concat (map (image_paths_of U D) (concat (map subnodes cs))))"
proof -
  have "foldl (\<lambda>ps c. traverse U D c ps) [] cs
          = [] @ concat (map (\<lambda>c. concat (map (image_paths_of U D) (subnodes c))) cs)"
    by (rule foldl_traverse_children) (rule traverse_subnodes)
  then show ?thesis
    by (simp add: extractImagePaths_def concat_map_concat)
qed

lemma mem_push_image_path:
  "p \<in> set (push_image_path U D s []) \<longleftrightarrow> push_image_path U D s [] = [p]"
  by (auto simp: push_image_path_def split: option.splits)

text \<open>
  C1, as the code has it. \<^verbatim>\<open>extractImagePaths\<close> returns a list without duplicates. For a
  content with a list of children its elements are the paths pushed for the image nodes
  below the root whose \<^verbatim>\<open>src\<close> is a string: the decoded object path of a storage URL, the
  \<^verbatim>\<open>src\<close> itself when it is a storage path or starts with \<^verbatim>\<open>http\<close>, and nothing for any
  other \<^verbatim>\<open>src\<close>. The placeholder flag is not read: an image contributes the same paths
  whatever its flag. A missing content gives the empty list.
\<close>

theorem extractImagePaths_by_src:
  "distinct (extractImagePaths U D content)
   \<and> set (extractImagePaths U D (Some (Node ty (Some cs) tx marks a))) =
       {p. \<exists>n \<in> set (concat (map subnodes cs)). \<exists>s.
             node_type n = Some ''image'' \<and> attrs_src (node_attrs n) = Some s
             \<and> push_image_path U D s [] = [p]}
   \<and> extractImagePaths U D (Some (element ''doc'' [image_node s flag])) = push_image_path U D s []
   \<and> extractImagePaths U D None = []
   \<and> extractImagePaths U D (Some (Node ty None tx marks a)) = []"
proof -
  have d: "distinct (extractImagePaths U D content)"
    by (simp add: extractImagePaths_def distinct_Array_from_Set split: option.splits)
  have m: "p \<in> set (image_paths_of U D n) \<longleftrightarrow>
             (\<exists>s. node_type n = Some ''image'' \<and> attrs_src (node_attrs n) = Some s
                  \<and> push_image_path U D s [] = [p])" for p n
  proof (cases "node_type n = Some ''image''")
    case True
    show ?thesis
    proof (cases "attrs_src (node_attrs n)")
      case None
      with True show ?thesis by (simp add: image_paths_of_def)
    next
      case (Some s0)
      with True mem_push_image_path [of p U D s0] show ?thesis
        by (simp add: image_paths_of_def)
    qed
  next
    case False
    then show ?thesis by (simp add: image_paths_of_def)
  qed
  have s: "set (extractImagePaths U D (Some (Node ty (Some cs) tx marks a))) =
       {p. \<exists>n \<in> set (concat (map subnodes cs)). \<exists>s.
             node_type n = Some ''image'' \<and> attrs_src (node_attrs n) = Some s
             \<and> push_image_path U D s [] = [p]}"
  proof -
    have "set (extractImagePaths U D (Some (Node ty (Some cs) tx marks a)))
            = (\<Union>n \<in> set (concat (map subnodes cs)). set (image_paths_of U D n))"
      by (simp add: extractImagePaths_children set_Array_from_Set)
    then show ?thesis
      using m by blast
  qed
  have one: "Array_from_Set xs = xs" if "length xs \<le> 1" for xs
    using that by (cases xs) (auto simp: Array_from_Set_def set_add_def)
  have i: "extractImagePaths U D (Some (element ''doc'' [image_node s flag])) = push_image_path U D s []"
    unfolding element_def extractImagePaths_children
    by (simp add: image_node_def image_paths_of_Node attrs_src_def
          one [OF push_image_path_length])
  from d s i show ?thesis
    by (simp add: extractImagePaths_def)
qed

text \<open>C1 as stated fails: an image that carries the placeholder flag is included when its
  \<^verbatim>\<open>src\<close> starts with \<^verbatim>\<open>http\<close>, and an image without the flag is left out when its
  \<^verbatim>\<open>src\<close> has none of the three forms.\<close>

theorem flagged_image_counterexample:
  "extractImagePaths (\<lambda>u. None) (\<lambda>c. Some c)
       (Some (element ''doc'' [image_node ''https://example.com/a.png'' (Some ''true'')]))
     = [''https://example.com/a.png'']
   \<and> extractImagePaths (\<lambda>u. None) (\<lambda>c. Some c)
       (Some (element ''doc'' [image_node ''images/a.png'' None])) = []"
  by (simp add: extractImagePaths_def element_def image_node_def attrs_src_def
        push_image_path_def Array_from_Set_def set_add_def)

section \<open>Properties of the image sweep\<close>

lemma cleanup_step_fields:
  "deleteObject_calls (cleanup_step U D ok st url)
     = deleteObject_calls st @ (case sweep_path U D url of None \<Rightarrow> [] | Some p \<Rightarrow> [p])"
  "logged_failures (cleanup_step U D ok st url)
     = logged_failures st
       + length (filter (\<lambda>p. \<not> ok p) (case sweep_path U D url of None \<Rightarrow> [] | Some p \<Rightarrow> [p]))"
  "previousImages (cleanup_step U D ok st url) = previousImages st"
  "user_uid (cleanup_step U D ok st url) = user_uid st"
  by (simp_all add: cleanup_step_def sweep_path_def deleteImage_def split: option.splits)

lemma map_filter_snoc:
  "List.map_filter f (xs @ [x]) = List.map_filter f xs @ (case f x of None \<Rightarrow> [] | Some y \<Rightarrow> [y])"
  by (simp add: List.map_filter_def split: option.splits)

lemma cleanup_loop_fields:
  "deleteObject_calls (foldl (cleanup_step U D ok) st urls)
     = deleteObject_calls st @ List.map_filter (sweep_path U D) urls
   \<and> logged_failures (foldl (cleanup_step U D ok) st urls)
     = logged_failures st + length (filter (\<lambda>p. \<not> ok p) (List.map_filter (sweep_path U D) urls))
   \<and> previousImages (foldl (cleanup_step U D ok) st urls) = previousImages st
   \<and> user_uid (foldl (cleanup_step U D ok) st urls) = user_uid st"
proof (induction urls rule: rev_induct)
  case Nil
  show ?case by (simp add: List.map_filter_def)
next
  case (snoc url urls)
  then show ?case
    by (simp add: cleanup_step_fields map_filter_snoc)
qed

text \<open>
  C2, as the code has it. With a user signed in, one run of \<^verbatim>\<open>trackImagesAndCleanup\<close>
  asks the storage service to delete, in order, the storage path of each URL that is in
  \<^verbatim>\<open>previousImages\<close> and not among the current images, unless the URL contains
  \<^verbatim>\<open>blob:\<close> or yields no path; afterwards \<^verbatim>\<open>previousImages\<close> holds the current images
  that do not contain \<^verbatim>\<open>blob:\<close>. Neither depends on whether a delete succeeds: a
  failed delete only adds to the logged failures. With no user signed in the run changes
  nothing.
\<close>

theorem sweep_deletes_extractable_orphans:
  "(user_uid st = Some u \<and> u \<noteq> [] \<longrightarrow>
      deleteObject_calls (trackImagesAndCleanup U D ok content st)
        = deleteObject_calls st
          @ List.map_filter (sweep_path U D)
              (filter (\<lambda>url. url \<notin> set (extractImages content [])) (previousImages st))
      \<and> previousImages (trackImagesAndCleanup U D ok content st)
        = filter (\<lambda>url. \<not> str_includes url ''blob:'') (extractImages content [])
      \<and> logged_failures (trackImagesAndCleanup U D ok content st)
        = logged_failures st
          + length (filter (\<lambda>p. \<not> ok p)
              (List.map_filter (sweep_path U D)
                 (filter (\<lambda>url. url \<notin> set (extractImages content [])) (previousImages st))))
      \<and> user_uid (trackImagesAndCleanup U D ok content st) = user_uid st)
   \<and> (user_uid st = None \<or> user_uid st = Some [] \<longrightarrow>
        trackImagesAndCleanup U D ok content st = st)"
  by (simp add: trackImagesAndCleanup_def Let_def cleanup_loop_fields)

lemma stored_image_facts:
  "firebase_url (stored_image ''A'')" "firebase_url (stored_image ''B'')"
  "firebase_url (stored_image ''C'')" "firebase_url (stored_image ''D'')"
  "\<not> str_includes (stored_image ''A'') ''blob:''" "\<not> str_includes (stored_image ''B'') ''blob:''"
  "\<not> str_includes (stored_image ''C'') ''blob:''" "\<not> str_includes (stored_image ''D'') ''blob:''"
  by (simp_all add: firebase_url_def stored_image_def)

lemma sweep_path_A: "sweep_path example_pathname Some (stored_image ''A'') = Some ''A''"
  by (simp add: sweep_path_def extractStoragePathFromUrl_def stored_image_facts)
     (simp add: stored_image_def example_pathname_def match_o_here_def line_terminator_def)

lemma extractImages_bcd:
  "extractImages bcd_doc [] = [stored_image ''B'', stored_image ''C'', stored_image ''D'']"
  by (simp add: bcd_doc_def element_def image_node_def attrs_src_def set_add_def stored_image_facts)
     (simp add: stored_image_def)

text \<open>The scenario of the claim: the last saved document held A, B and C, the current one
  holds B, C and D, and every delete fails.\<close>

theorem sweep_deletes_extractable_orphans_witness:
  "user_uid abc_state = Some ''u1'' \<and> ''u1'' \<noteq> []
   \<and> deleteObject_calls (trackImagesAndCleanup example_pathname Some (\<lambda>p. False) bcd_doc abc_state)
       = [''A'']
   \<and> previousImages (trackImagesAndCleanup example_pathname Some (\<lambda>p. False) bcd_doc abc_state)
       = [stored_image ''B'', stored_image ''C'', stored_image ''D'']
   \<and> user_uid (abc_state\<lparr>user_uid := None\<rparr>) = None
   \<and> trackImagesAndCleanup example_pathname Some (\<lambda>p. False) bcd_doc (abc_state\<lparr>user_uid := None\<rparr>)
       = abc_state\<lparr>user_uid := None\<rparr>"
  using sweep_deletes_extractable_orphans
          [of abc_state "''u1''" example_pathname Some "\<lambda>p. False" bcd_doc]
        sweep_deletes_extractable_orphans
          [of "abc_state\<lparr>user_uid := None\<rparr>" "''u1''" example_pathname Some "\<lambda>p. False" bcd_doc]
  by (simp add: extractImages_bcd stored_image_facts)
     (simp add: abc_state_def List.map_filter_def sweep_path_A, simp add: stored_image_def)


text \<open>C2 as stated fails: a URL that left the document and has no object path in it is not
  submitted for deletion, and with no user signed in the baseline is not replaced.\<close>

theorem sweep_counterexample:
  "deleteObject_calls
     (trackImagesAndCleanup example_pathname Some (\<lambda>p. True) (element ''doc'' [])
        \<lparr>user_uid = Some ''u1'',
         previousImages = [''https://firebasestorage.googleapis.com/img.png''],
         deleteObject_calls = [], logged_failures = 0\<rparr>) = []
   \<and> previousImages
       (trackImagesAndCleanup example_pathname Some (\<lambda>p. True) (element ''doc'' [])
          \<lparr>user_uid = None, previousImages = [stored_image ''A''],
           deleteObject_calls = [], logged_failures = 0\<rparr>) = [stored_image ''A'']"
  by (simp add: trackImagesAndCleanup_def element_def cleanup_step_def
        extractStoragePathFromUrl_def firebase_url_def example_pathname_def
        match_o_here_def)

section \<open>Properties of saving and loading\<close>

subsection \<open>Strings\<close>






subsection \<open>Numbers\<close>



declare digits.simps [simp del]









subsection \<open>Values\<close>





declare parse_value.simps [simp del] parse_elements.simps [simp del]
  parse_members.simps [simp del]












subsection \<open>Content trees\<close>










text \<open>Other texts: white space and a repeated key are read as \<^verbatim>\<open>JSON.parse\<close> reads
  them, \<^verbatim>\<open>null\<close> loads as the empty document, and a text that does not parse is kept as
  a string.\<close>

lemma json_parse_examples:
  \<open>json_parse '' { "content" : [ ], "type" : "doc" } '' = Some (JObject empty_doc)\<close>
  \<open>json_parse ''{"type":"doc","type":"heading","attrs":{"level":2}}''
     = Some (JObject (Node (Some ''heading'') None None None
          (Some \<lparr>level = Some 2, textAlign = None, checked = None, src = None, data_temp = None\<rparr>)))\<close>
  \<open>json_parse ''null'' = Some JNull\<close>
  \<open>json_parse ''{"type":"doc"'' = None\<close>
  \<open>getPage_content json_parse (JString ''null'') = JObject empty_doc\<close>
  \<open>getPage_content json_parse (JString ''{"type":"doc"'') = JString ''{"type":"doc"''\<close>
  by code_simp+

end
